theory Spec2Isabelle
  imports Main "HOL-Library.Sublist" "HOL-Library.AList"
begin

section \<open>Python values and text operations used by the gateway\<close>

text \<open>
  The module \<^verbatim>\<open>src/core/ytdlp_manager.py\<close> handles the values that \<^verbatim>\<open>json.loads\<close>
  produces: \<^verbatim>\<open>None\<close>, booleans, integers, floats, strings, lists and dictionaries.
  Python's \<^verbatim>\<open>None\<close> and JSON's \<^verbatim>\<open>null\<close> are the same value, so one datatype
  serves for both the parsed documents and the optional results of the methods.
  A dictionary is an association list in insertion order, looked up with \<open>map_of\<close>.
  A float is a finite value \<open>m * 2 ^ e\<close>, an infinity with its sign, or not-a-number.
  Characters are the code points below 256.
\<close>

datatype pyfloat = Finite int int | Infinity bool | NaN

datatype pyval =
    PNone
  | PBool bool
  | PInt int
  | PFloat pyfloat
  | PStr string
  | PList "pyval list"
  | PDict "(string \<times> pyval) list"

text \<open>
  The exceptions that reach the methods of the module. \<^verbatim>\<open>JSONDecodeError\<close> is the
  one class the module catches by name; \<open>OtherError\<close> stands for any class not listed.
\<close>

datatype pyerror =
    AttributeError
  | TypeError
  | KeyError
  | IndexError
  | JSONDecodeError
  | ValueError
  | RecursionError
  | OSError
  | FileNotFoundError
  | OtherError string

text \<open>Truth value of an object, as \<^verbatim>\<open>if info:\<close> and \<^verbatim>\<open>if format_ext:\<close> test it.\<close>

fun truthy :: "pyval \<Rightarrow> bool" where
  "truthy PNone = False"
| "truthy (PBool b) = b"
| "truthy (PInt n) = (n \<noteq> 0)"
| "truthy (PFloat (Finite m e)) = (m \<noteq> 0)"
| "truthy (PFloat (Infinity s)) = True"
| "truthy (PFloat NaN) = True"
| "truthy (PStr s) = (s \<noteq> [])"
| "truthy (PList xs) = (xs \<noteq> [])"
| "truthy (PDict kvs) = (kvs \<noteq> [])"

text \<open>Truth value of an optional string keyword (\<^verbatim>\<open>if playlist_items:\<close>).\<close>

fun given :: "string option \<Rightarrow> bool" where
  "given None = False"
| "given (Some s) = (s \<noteq> [])"

text \<open>\<^verbatim>\<open>needle in haystack\<close> on two strings: the needle occurs as a contiguous run.\<close>

fun contains :: "string \<Rightarrow> string \<Rightarrow> bool" where
  "contains sub [] = (sub = [])"
| "contains sub (c # cs) = (prefix sub (c # cs) \<or> contains sub cs)"

text \<open>\<^verbatim>\<open>str.isspace\<close> on one character: the white space that \<^verbatim>\<open>str.strip()\<close> removes.\<close>

definition isspace :: "char \<Rightarrow> bool" where
  "isspace c = ((of_char c :: nat) \<in> {9, 10, 11, 12, 13, 28, 29, 30, 31, 32, 133, 160})"

definition strip :: "string \<Rightarrow> string" where
  "strip s = rev (dropWhile isspace (rev (dropWhile isspace s)))"

definition lower_char :: "char \<Rightarrow> char" where
  "lower_char c =
     (let n = (of_char c :: nat)
      in if (65 \<le> n \<and> n \<le> 90) \<or> (192 \<le> n \<and> n \<le> 222 \<and> n \<noteq> 215)
         then char_of (n + 32) else c)"

definition lower :: "string \<Rightarrow> string" where
  "lower s = map lower_char s"

text \<open>
  \<^verbatim>\<open>s.split(sep)\<close> with a non-empty separator: the pieces between the leftmost,
  non-overlapping occurrences of \<open>sep\<close>. Every call in the module passes a literal
  separator (\<^verbatim>\<open>'\n'\<close>, \<^verbatim>\<open>"-drc"\<close>, \<^verbatim>\<open>" - "\<close>); with an empty one Python raises and
  the model returns the text unsplit.
\<close>

function str_split :: "string \<Rightarrow> string \<Rightarrow> string list" where
  "str_split sep [] = [[]]"
| "str_split sep (c # cs) =
     (if sep \<noteq> [] \<and> prefix sep (c # cs)
      then [] # str_split sep (drop (length sep) (c # cs))
      else (case str_split sep cs of
              [] \<Rightarrow> [[c]]
            | p # ps \<Rightarrow> (c # p) # ps))"
  by pat_completeness auto
termination
  by (relation "measure (\<lambda>(sep, s). length s)") auto

text \<open>\<^verbatim>\<open>sep.join(parts)\<close>.\<close>

fun str_join :: "string \<Rightarrow> string list \<Rightarrow> string" where
  "str_join sep [] = []"
| "str_join sep [x] = x"
| "str_join sep (x # y # rest) = x @ sep @ str_join sep (y # rest)"

text \<open>Decimal text of a natural number, as an f-string prints the timeout.\<close>

fun str_nat :: "nat \<Rightarrow> string" where
  "str_nat n =
     (if n < 10 then [char_of (48 + n)]
      else str_nat (n div 10) @ [char_of (48 + n mod 10)])"

subsection \<open>Operations on objects that can raise\<close>

text \<open>\<^verbatim>\<open>obj.get(key)\<close> and \<^verbatim>\<open>obj.get(key, default)\<close>: only a dictionary has the method.\<close>

fun py_get_default :: "pyval \<Rightarrow> string \<Rightarrow> pyval \<Rightarrow> pyerror + pyval" where
  "py_get_default (PDict kvs) k d = Inr (case map_of kvs k of None \<Rightarrow> d | Some v \<Rightarrow> v)"
| "py_get_default obj k d = Inl AttributeError"

definition py_get :: "pyval \<Rightarrow> string \<Rightarrow> pyerror + pyval" where
  "py_get obj k = py_get_default obj k PNone"

text \<open>\<^verbatim>\<open>key in obj\<close> for a string key.\<close>

fun py_in :: "string \<Rightarrow> pyval \<Rightarrow> pyerror + bool" where
  "py_in k (PDict kvs) = Inr (k \<in> set (map fst kvs))"
| "py_in k (PList xs) = Inr (PStr k \<in> set xs)"
| "py_in k (PStr s) = Inr (contains k s)"
| "py_in k obj = Inl TypeError"

text \<open>\<^verbatim>\<open>obj[key]\<close> for a string key.\<close>

fun py_getitem :: "pyval \<Rightarrow> string \<Rightarrow> pyerror + pyval" where
  "py_getitem (PDict kvs) k = (case map_of kvs k of None \<Rightarrow> Inl KeyError | Some v \<Rightarrow> Inr v)"
| "py_getitem obj k = Inl TypeError"

text \<open>\<^verbatim>\<open>obj[key] = value\<close> for a string key; the dictionary keeps the key's position.\<close>

fun py_setitem :: "pyval \<Rightarrow> string \<Rightarrow> pyval \<Rightarrow> pyerror + pyval" where
  "py_setitem (PDict kvs) k v = Inr (PDict (AList.update k v kvs))"
| "py_setitem obj k v = Inl TypeError"

text \<open>The elements a \<^verbatim>\<open>for\<close> loop visits.\<close>

fun py_iter :: "pyval \<Rightarrow> pyerror + pyval list" where
  "py_iter (PList xs) = Inr xs"
| "py_iter (PDict kvs) = Inr (map (\<lambda>kv. PStr (fst kv)) kvs)"
| "py_iter (PStr s) = Inr (map (\<lambda>c. PStr [c]) s)"
| "py_iter obj = Inl TypeError"

text \<open>\<^verbatim>\<open>obj.lower()\<close>: only a string has the method.\<close>

fun py_lower :: "pyval \<Rightarrow> pyerror + string" where
  "py_lower (PStr s) = Inr (lower s)"
| "py_lower obj = Inl AttributeError"

section \<open>The extractor gateway\<close>

text \<open>
  What the module takes from outside is a parameter of the model:
  \<^item> \<open>run\<close>: \<^verbatim>\<open>subprocess.run\<close> on a command vector and a timeout, which completes with
    an exit status, stdout and stderr, or raises \<^verbatim>\<open>TimeoutExpired\<close>, or raises
    another exception with a message;
  \<^item> \<open>path_exists\<close>: \<^verbatim>\<open>Path(p).exists()\<close>, which answers or raises (\<^verbatim>\<open>OSError\<close> for a
    name that is too long or a directory that cannot be searched);
  \<^item> \<open>loads\<close>: \<^verbatim>\<open>json.loads\<close>, which returns the document or raises
    \<^verbatim>\<open>JSONDecodeError\<close>, or another exception such as \<^verbatim>\<open>RecursionError\<close> on deep
    nesting and \<^verbatim>\<open>ValueError\<close> on an integer of too many digits;
  \<^item> \<open>cwd\<close>: \<^verbatim>\<open>Path.cwd()\<close>, which raises when the working directory is gone;
  \<^item> \<open>path_join\<close>: \<^verbatim>\<open>str(directory / relative)\<close> for a path object and a string.
  Calls of the logger write diagnostics only and are left out. Every method returns,
  beside its result, the list of process invocations it made.
\<close>

datatype proc_outcome =
    Completed int string string
  | TimeoutExpired
  | OtherException string

record env =
  run :: "string list \<Rightarrow> nat \<Rightarrow> proc_outcome"
  path_exists :: "string \<Rightarrow> pyerror + bool"
  loads :: "string \<Rightarrow> pyerror + pyval"
  cwd :: "pyerror + string"
  path_join :: "string \<Rightarrow> string \<Rightarrow> string"

record manager =
  ytdlp_path :: string

type_synonym invocation = "string list \<times> nat"

definition init :: "string \<Rightarrow> manager" where
  "init p = \<lparr>ytdlp_path = p\<rparr>"

definition run_command ::
  "env \<Rightarrow> manager \<Rightarrow> string list \<Rightarrow> nat \<Rightarrow> (int \<times> string \<times> string) \<times> invocation list" where
  "run_command e self args timeout =
     (let cmd = [ytdlp_path self] @ args
      in ((case run e cmd timeout of
             Completed returncode out err \<Rightarrow> (returncode, out, err)
           | TimeoutExpired \<Rightarrow>
               (- 1, [], ''Command timed out after '' @ str_nat timeout @ '' seconds'')
           | OtherException msg \<Rightarrow> (- 1, [], msg)),
          [(cmd, timeout)]))"

definition get_version :: "env \<Rightarrow> manager \<Rightarrow> string option \<times> invocation list" where
  "get_version e self =
     (case run_command e self [''--version''] 30 of
        ((return_code, out, err), tr) \<Rightarrow>
          (if return_code = 0 then Some (strip out) else None, tr))"

text \<open>The second step of \<^verbatim>\<open>check_availability\<close>: the answer to \<^verbatim>\<open>--version\<close>.\<close>

definition version_probe :: "env \<Rightarrow> manager \<Rightarrow> (pyerror + bool) \<times> invocation list" where
  "version_probe e self =
     (case get_version e self of (version, tr) \<Rightarrow> (Inr (version \<noteq> None), tr))"

definition check_availability :: "env \<Rightarrow> manager \<Rightarrow> (pyerror + bool) \<times> invocation list" where
  "check_availability e self =
     (if ytdlp_path self \<noteq> ''yt-dlp''
      then (case path_exists e (ytdlp_path self) of
              Inl err \<Rightarrow> (Inl err, [])
            | Inr found \<Rightarrow> if \<not> found then (Inr False, []) else version_probe e self)
      else version_probe e self)"

text \<open>The argument vector of \<^verbatim>\<open>extract_info\<close>.\<close>

definition extract_args ::
  "string \<Rightarrow> bool \<Rightarrow> string option \<Rightarrow> string option \<Rightarrow> string option \<Rightarrow> string list" where
  "extract_args url extract_flat items cookies_file browser =
     [''--dump-json'', ''--no-warnings'', ''--skip-download'']
     @ (if extract_flat then [''--flat-playlist''] else [])
     @ (if given items then [''--playlist-items'', the items] else [])
     @ (if given cookies_file then [''--cookies'', the cookies_file]
        else if given browser then [''--cookies-from-browser'', the browser]
        else [])
     @ [url]"

definition json_loads :: "env \<Rightarrow> string \<Rightarrow> pyerror + pyval" where
  "json_loads e s = loads e s"

text \<open>The loop that collects \<^verbatim>\<open>entries\<close>: it parses each line that is not blank.\<close>

fun parse_entries :: "env \<Rightarrow> string list \<Rightarrow> pyerror + pyval list" where
  "parse_entries e [] = Inr []"
| "parse_entries e (line # rest) =
     (if strip line \<noteq> []
      then (case json_loads e line of
              Inl err \<Rightarrow> Inl err
            | Inr entry \<Rightarrow>
                (case parse_entries e rest of
                   Inl err \<Rightarrow> Inl err
                 | Inr entries \<Rightarrow> Inr (entry # entries)))
      else parse_entries e rest)"

text \<open>The body of the \<^verbatim>\<open>try\<close> block of \<^verbatim>\<open>extract_info\<close>.\<close>

definition parse_output :: "env \<Rightarrow> string \<Rightarrow> pyerror + pyval" where
  "parse_output e out =
     (case str_split ''\<newline>'' (strip out) of
        [] \<Rightarrow> Inl IndexError
      | [line] \<Rightarrow> json_loads e line
      | first # others \<Rightarrow>
          (case json_loads e first of
             Inl err \<Rightarrow> Inl err
           | Inr playlist_info \<Rightarrow>
               (case parse_entries e (first # others) of
                  Inl err \<Rightarrow> Inl err
                | Inr entries \<Rightarrow>
                    (case py_get playlist_info ''_type'' of
                       Inl err \<Rightarrow> Inl err
                     | Inr ty \<Rightarrow>
                         if ty = PStr ''playlist''
                         then py_setitem playlist_info ''entries'' (PList (drop 1 entries))
                         else Inr (PDict [(''entries'', PList entries),
                                          (''_type'', PStr ''multi_video'')])))))"

text \<open>\<^verbatim>\<open>except json.JSONDecodeError: return None\<close>; any other exception propagates.\<close>

definition catch_decode_error :: "pyerror + pyval \<Rightarrow> pyerror + pyval" where
  "catch_decode_error r =
     (case r of
        Inl err \<Rightarrow> if err = JSONDecodeError then Inr PNone else Inl err
      | Inr v \<Rightarrow> Inr v)"

definition extract_info ::
  "env \<Rightarrow> manager \<Rightarrow> string \<Rightarrow> bool \<Rightarrow> string option \<Rightarrow> string option \<Rightarrow> string option
     \<Rightarrow> (pyerror + pyval) \<times> invocation list" where
  "extract_info e self url extract_flat items cookies_file browser =
     (case run_command e self (extract_args url extract_flat items cookies_file browser) 60 of
        ((return_code, out, err), tr) \<Rightarrow>
          (if return_code \<noteq> 0 then Inr PNone
           else catch_decode_error (parse_output e out), tr))"

text \<open>\<^verbatim>\<open>self.extract_info(url)\<close>: the call with every default.\<close>

definition extract_info_default ::
  "env \<Rightarrow> manager \<Rightarrow> string \<Rightarrow> (pyerror + pyval) \<times> invocation list" where
  "extract_info_default e self url = extract_info e self url False None None None"

text \<open>\<^verbatim>\<open>info[key] if info and key in info else None\<close>, shared by two accessors.\<close>

definition field_or_none :: "pyval \<Rightarrow> string \<Rightarrow> pyerror + pyval" where
  "field_or_none info k =
     (if truthy info
      then (case py_in k info of
              Inl err \<Rightarrow> Inl err
            | Inr present \<Rightarrow> if present then py_getitem info k else Inr PNone)
      else Inr PNone)"

definition get_formats :: "env \<Rightarrow> manager \<Rightarrow> string \<Rightarrow> (pyerror + pyval) \<times> invocation list" where
  "get_formats e self url =
     (case extract_info_default e self url of
        (Inl err, tr) \<Rightarrow> (Inl err, tr)
      | (Inr info, tr) \<Rightarrow> (field_or_none info ''formats'', tr))"

definition get_subtitles :: "env \<Rightarrow> manager \<Rightarrow> string \<Rightarrow> (pyerror + pyval) \<times> invocation list" where
  "get_subtitles e self url =
     (case extract_info_default e self url of
        (Inl err, tr) \<Rightarrow> (Inl err, tr)
      | (Inr info, tr) \<Rightarrow>
          (if truthy info
           then (case py_get_default info ''subtitles'' (PDict []) of
                   Inl err \<Rightarrow> Inl err
                 | Inr subs \<Rightarrow>
                     (case py_get_default info ''automatic_captions'' (PDict []) of
                        Inl err \<Rightarrow> Inl err
                      | Inr auto \<Rightarrow>
                          Inr (PDict [(''subtitles'', subs), (''automatic_captions'', auto)])))
           else Inr PNone, tr))"

definition get_thumbnail_info ::
  "env \<Rightarrow> manager \<Rightarrow> string \<Rightarrow> (pyerror + pyval) \<times> invocation list" where
  "get_thumbnail_info e self url =
     (case extract_info_default e self url of
        (Inl err, tr) \<Rightarrow> (Inl err, tr)
      | (Inr info, tr) \<Rightarrow> (field_or_none info ''thumbnails'', tr))"

section \<open>The download command builder\<close>

text \<open>
  The keyword options of \<^verbatim>\<open>build_download_command\<close>. A field holds the value of the
  keyword when the caller gives it; \<open>None\<close>, \<open>False\<close> and \<open>[]\<close> stand for a keyword
  that is absent. The values are of the types the operations of the builder expect
  (text, lists of text, truth values), except \<^verbatim>\<open>output_path\<close>: the builder applies
  \<^verbatim>\<open>/\<close> to it, which a path object supports and any other object (a string,
  \<^verbatim>\<open>None\<close>) does not. The command vector is a list of objects: every token is a
  string except a format's \<^verbatim>\<open>ext\<close>, which is appended as the extraction result
  holds it.
\<close>

datatype path_arg = PathObj string | NotAPath pyval

record options =
  format_id :: "string option"
  resolution :: "string option"
  output_path :: "path_arg option"
  is_playlist :: bool
  playlist_items :: "string option"
  subtitle_langs :: "string list"
  merge_subs :: bool
  enable_sponsorblock :: bool
  sponsorblock_categories :: "string list"
  save_description :: bool
  embed_chapters :: bool
  cookie_file :: "string option"
  browser_cookies :: "string option"
  rate_limit :: "string option"
  download_section :: "string option"
  force_keyframes :: bool

text \<open>
  \<^verbatim>\<open>format_id.split("-drc")[0] if "-drc" in format_id else format_id\<close>. A split is
  never empty, so the index 0 is always there.
\<close>

definition clean_format_id :: "string \<Rightarrow> string" where
  "clean_format_id fid =
     (if contains ''-drc'' fid then hd (str_split ''-drc'' fid) else fid)"

text \<open>
  The list the two loops over \<^verbatim>\<open>info['formats']\<close> visit; they visit nothing when
  \<^verbatim>\<open>info and 'formats' in info\<close> is false.
\<close>

definition formats_of :: "pyval \<Rightarrow> pyerror + pyval list" where
  "formats_of info =
     (if truthy info
      then (case py_in ''formats'' info of
              Inl err \<Rightarrow> Inl err
            | Inr present \<Rightarrow>
                if present
                then (case py_getitem info ''formats'' of
                        Inl err \<Rightarrow> Inl err
                      | Inr fmts \<Rightarrow> py_iter fmts)
                else Inr [])
      else Inr [])"

text \<open>
  \<^verbatim>\<open>fmt.get('vcodec') == 'none' or 'audio only' in fmt.get('format_note', '').lower()\<close>
\<close>

definition audio_only_entry :: "pyval \<Rightarrow> pyerror + bool" where
  "audio_only_entry fmt =
     (case py_get fmt ''vcodec'' of
        Inl err \<Rightarrow> Inl err
      | Inr vcodec \<Rightarrow>
          if vcodec = PStr ''none'' then Inr True
          else (case py_get_default fmt ''format_note'' (PStr []) of
                  Inl err \<Rightarrow> Inl err
                | Inr note \<Rightarrow>
                    (case py_lower note of
                       Inl err \<Rightarrow> Inl err
                     | Inr low \<Rightarrow> Inr (contains ''audio only'' low))))"

text \<open>The first loop: the value of \<^verbatim>\<open>is_audio_format\<close> when it ends.\<close>

fun is_audio_loop :: "string \<Rightarrow> pyval list \<Rightarrow> pyerror + bool" where
  "is_audio_loop cid [] = Inr False"
| "is_audio_loop cid (fmt # rest) =
     (case py_get fmt ''format_id'' of
        Inl err \<Rightarrow> Inl err
      | Inr fid \<Rightarrow>
          if fid = PStr cid then audio_only_entry fmt
          else is_audio_loop cid rest)"

text \<open>The second loop: the tokens it appends to the command.\<close>

fun merge_loop :: "string \<Rightarrow> pyval list \<Rightarrow> pyerror + pyval list" where
  "merge_loop cid [] = Inr []"
| "merge_loop cid (fmt # rest) =
     (case py_get fmt ''format_id'' of
        Inl err \<Rightarrow> Inl err
      | Inr fid \<Rightarrow>
          if fid = PStr cid
          then (case py_get fmt ''ext'' of
                  Inl err \<Rightarrow> Inl err
                | Inr format_ext \<Rightarrow>
                    Inr (if truthy format_ext
                         then [PStr ''--merge-output-format'', format_ext]
                         else []))
          else merge_loop cid rest)"

text \<open>The tokens of the section \<^verbatim>\<open># Format selection\<close>.\<close>

definition format_selection ::
  "env \<Rightarrow> manager \<Rightarrow> string \<Rightarrow> options \<Rightarrow> (pyerror + pyval list) \<times> invocation list" where
  "format_selection e self url opts =
     (if given (format_id opts)
      then (let clean = clean_format_id (the (format_id opts))
            in case extract_info_default e self url of
                 (Inl err, tr) \<Rightarrow> (Inl err, tr)
               | (Inr info, tr) \<Rightarrow>
                   ((case formats_of info of
                       Inl err \<Rightarrow> Inl err
                     | Inr fmts \<Rightarrow>
                         (case is_audio_loop clean fmts of
                            Inl err \<Rightarrow> Inl err
                          | Inr is_audio_format \<Rightarrow>
                              if is_audio_format then Inr [PStr ''-f'', PStr clean]
                              else (case merge_loop clean fmts of
                                      Inl err \<Rightarrow> Inl err
                                    | Inr merge \<Rightarrow>
                                        Inr ([PStr ''-f'', PStr (clean @ ''+bestaudio/best'')]
                                             @ merge)))),
                    tr))
      else if given (resolution opts)
      then (Inr [PStr ''-S'', PStr (''res:'' @ the (resolution opts))], [])
      else (Inr [], []))"

text \<open>
  The section \<^verbatim>\<open># Output template\<close>. \<^verbatim>\<open>Path.cwd()\<close> is the default argument of
  \<^verbatim>\<open>options.get\<close> and is evaluated whether or not the keyword is given.
\<close>

definition output_template :: "env \<Rightarrow> options \<Rightarrow> pyerror + string" where
  "output_template e opts =
     (case cwd e of
        Inl err \<Rightarrow> Inl err
      | Inr here \<Rightarrow>
          (case (case output_path opts of None \<Rightarrow> PathObj here | Some given_path \<Rightarrow> given_path) of
             PathObj dir \<Rightarrow>
               Inr (if is_playlist opts
                    then path_join e dir ''%(playlist_title)s/%(title)s_%(resolution)s.%(ext)s''
                    else path_join e dir ''%(title)s_%(resolution)s.%(ext)s'')
           | NotAPath obj \<Rightarrow> Inl TypeError))"

definition subtitle_options :: "options \<Rightarrow> string list" where
  "subtitle_options opts =
     (if subtitle_langs opts \<noteq> []
      then [''--write-subs'']
           @ (let lang_codes = map (\<lambda>sub_selection. hd (str_split '' - '' sub_selection))
                                   (subtitle_langs opts)
              in if lang_codes \<noteq> []
                 then [''--sub-langs'', str_join '','' lang_codes, ''--write-auto-subs'']
                      @ (if merge_subs opts then [''--embed-subs''] else [])
                 else [])
      else [])"

text \<open>The tokens from \<^verbatim>\<open>-o\<close> down to the last option before the URL.\<close>

definition common_options :: "string \<Rightarrow> options \<Rightarrow> string list" where
  "common_options template opts =
     [''-o'', template]
     @ [''--force-overwrites'']
     @ (if given (playlist_items opts) then [''--playlist-items'', the (playlist_items opts)]
        else [])
     @ subtitle_options opts
     @ (if enable_sponsorblock opts \<and> sponsorblock_categories opts \<noteq> []
        then [''--sponsorblock-remove'', str_join '','' (sponsorblock_categories opts)]
        else [])
     @ (if save_description opts then [''--write-description''] else [])
     @ (if embed_chapters opts then [''--embed-chapters''] else [])
     @ (if given (cookie_file opts) then [''--cookies'', the (cookie_file opts)]
        else if given (browser_cookies opts)
        then [''--cookies-from-browser'', the (browser_cookies opts)]
        else [])
     @ (if given (rate_limit opts) then [''-r'', the (rate_limit opts)] else [])
     @ (if given (download_section opts)
        then [''--download-sections'', the (download_section opts)]
             @ (if force_keyframes opts then [''--force-keyframes-at-cuts''] else [])
        else [])"

definition build_download_command ::
  "env \<Rightarrow> manager \<Rightarrow> string \<Rightarrow> options \<Rightarrow> (pyerror + pyval list) \<times> invocation list" where
  "build_download_command e self url opts =
     (case format_selection e self url opts of
        (Inl err, tr) \<Rightarrow> (Inl err, tr)
      | (Inr selection, tr) \<Rightarrow>
          (case output_template e opts of
             Inl err \<Rightarrow> (Inl err, tr)
           | Inr template \<Rightarrow>
               (Inr ([PStr (ytdlp_path self)] @ selection
                     @ map PStr (common_options template opts) @ [PStr url]),
                tr)))"

section \<open>Extraction results the builder classifies without raising\<close>

text \<open>
  The two loops of the builder call \<^verbatim>\<open>.get\<close> on each format and \<^verbatim>\<open>.lower()\<close> on its
  note. They run through when the extraction result is \<^verbatim>\<open>None\<close>, or a mapping with no
  \<^verbatim>\<open>formats\<close> key, or a mapping whose \<^verbatim>\<open>formats\<close> is a list of mappings, each with a
  \<^verbatim>\<open>format_note\<close> that is absent or text. These predicates name that shape; they are
  conditions on the input, not code of the module.
\<close>

fun well_formed_format :: "pyval \<Rightarrow> bool" where
  "well_formed_format (PDict kvs) =
     (case map_of kvs ''format_note'' of
        None \<Rightarrow> True
      | Some (PStr note) \<Rightarrow> True
      | Some other \<Rightarrow> False)"
| "well_formed_format obj = False"

fun well_formed_info :: "pyval \<Rightarrow> bool" where
  "well_formed_info PNone = True"
| "well_formed_info (PDict kvs) =
     (case map_of kvs ''formats'' of
        None \<Rightarrow> True
      | Some (PList fmts) \<Rightarrow> list_all well_formed_format fmts
      | Some other \<Rightarrow> False)"
| "well_formed_info obj = False"

section \<open>Sample documents and environments\<close>

text \<open>
  Concrete inputs for the examples below. \<open>sample_loads\<close> agrees with
  \<^verbatim>\<open>json.loads\<close> on the documents it lists and raises \<^verbatim>\<open>JSONDecodeError\<close> on
  every other text, among them the text of one space and the text \<^verbatim>\<open>not json\<close>, on
  which \<^verbatim>\<open>json.loads\<close> raises it too. In a sample environment every process completes
  with the given exit status and stdout, no file exists, the existence check of a name
  longer than 255 characters raises \<^verbatim>\<open>OSError\<close> (the system reports that the name is
  too long), the working directory is \<^verbatim>\<open>/videos\<close>, and a path is joined with a slash.
\<close>

definition doc_header :: string where
  \<open>doc_header = ''{"_type": "playlist", "title": "Mix"}''\<close>

definition doc_a :: string where
  \<open>doc_a = ''{"id": "a"}''\<close>

definition doc_b :: string where
  \<open>doc_b = ''{"id": "b"}''\<close>

definition doc_video :: string where
  \<open>doc_video = ''{"id": "v", "formats": [{"format_id": "140", "vcodec": "none", "ext": "m4a"}, {"format_id": "137", "vcodec": "avc1", "ext": "mp4"}]}''\<close>

definition doc_null_note :: string where
  \<open>doc_null_note = ''{"id": "n", "formats": [{"format_id": "18", "vcodec": "avc1", "format_note": null, "ext": "mp4"}]}''\<close>

definition video_formats :: "pyval list" where
  "video_formats =
     [PDict [(''format_id'', PStr ''140''), (''vcodec'', PStr ''none''), (''ext'', PStr ''m4a'')],
      PDict [(''format_id'', PStr ''137''), (''vcodec'', PStr ''avc1''), (''ext'', PStr ''mp4'')]]"

definition sample_documents :: "(string \<times> pyval) list" where
  "sample_documents =
       [(''{}'', PDict []),
        (''1'', PInt 1),
        (''2'', PInt 2),
        (''[1]'', PList [PInt 1]),
        (doc_header, PDict [(''_type'', PStr ''playlist''), (''title'', PStr ''Mix'')]),
        (doc_a, PDict [(''id'', PStr ''a'')]),
        (doc_b, PDict [(''id'', PStr ''b'')]),
        (doc_video, PDict [(''id'', PStr ''v''), (''formats'', PList video_formats)]),
        (doc_null_note,
         PDict [(''id'', PStr ''n''),
                (''formats'',
                 PList [PDict [(''format_id'', PStr ''18''), (''vcodec'', PStr ''avc1''),
                               (''format_note'', PNone), (''ext'', PStr ''mp4'')]])])]"

definition sample_loads :: "string \<Rightarrow> pyerror + pyval" where
  "sample_loads s =
     (case map_of sample_documents s of None \<Rightarrow> Inl JSONDecodeError | Some v \<Rightarrow> Inr v)"

definition sample_env :: "int \<Rightarrow> string \<Rightarrow> env" where
  "sample_env returncode out =
     \<lparr>run = (\<lambda>cmd timeout. Completed returncode out []),
      path_exists = (\<lambda>p. if 255 < length p then Inl OSError else Inr False),
      loads = sample_loads,
      cwd = Inr ''/videos'',
      path_join = (\<lambda>dir rel. dir @ ''/'' @ rel)\<rparr>"

text \<open>A playlist of two entries, with a blank line between them and a final newline.\<close>

definition playlist_out :: string where
  "playlist_out = doc_header @ ''\<newline>'' @ doc_a @ ''\<newline>\<newline>'' @ doc_b @ ''\<newline>''"

text \<open>Two videos with no playlist header.\<close>

definition videos_out :: string where
  "videos_out = doc_a @ ''\<newline>'' @ doc_b"

text \<open>The playlist header, then a line of one space and a final newline.\<close>

definition header_then_blank :: string where
  "header_then_blank = doc_header @ ''\<newline> \<newline>''"

text \<open>One video document, then a line of one space and a final newline.\<close>

definition video_then_blank :: string where
  "video_then_blank = doc_a @ ''\<newline> \<newline>''"

text \<open>Two entries around a line that holds one space.\<close>

definition spaced_out :: string where
  "spaced_out = ''{}\<newline> \<newline>{}''"

text \<open>The call \<^verbatim>\<open>build_download_command(url)\<close> with no keyword.\<close>

definition no_options :: options where
  "no_options =
     \<lparr>format_id = None, resolution = None, output_path = None, is_playlist = False,
      playlist_items = None, subtitle_langs = [], merge_subs = False,
      enable_sponsorblock = False, sponsorblock_categories = [],
      save_description = False, embed_chapters = False, cookie_file = None,
      browser_cookies = None, rate_limit = None, download_section = None,
      force_keyframes = False\<rparr>"

section \<open>Text lemmas\<close>

lemma str_split_nonempty: "str_split sep s \<noteq> []"
  by (induction sep s rule: str_split.induct) (auto split: list.splits)

lemma strip_prefix_dropWhile: "prefix (strip s) (dropWhile isspace s)"
proof -
  let ?t = "dropWhile isspace s"
  have "strip s @ rev (takeWhile isspace (rev ?t))
          = rev (takeWhile isspace (rev ?t) @ dropWhile isspace (rev ?t))"
    by (simp only: strip_def rev_append)
  also have "\<dots> = ?t"
    by (simp only: takeWhile_dropWhile_id rev_rev_ident)
  finally show ?thesis
    by (metis prefixI)
qed

lemma hd_strip_not_space:
  assumes "strip s \<noteq> []"
  shows "\<not> isspace (hd (strip s))"
proof -
  obtain zs where t: "dropWhile isspace s = strip s @ zs"
    using strip_prefix_dropWhile [of s] by (auto simp: prefix_def)
  with assms have ne: "dropWhile isspace s \<noteq> []" by auto
  from t assms have "hd (dropWhile isspace s) = hd (strip s)" by simp
  moreover from ne have "\<not> isspace (hd (dropWhile isspace s))"
    by (rule hd_dropWhile)
  ultimately show ?thesis by simp
qed

lemma isspace_newline: "isspace CHR ''\<newline>''"
  by (simp add: isspace_def)

lemma strip_Cons_not_space:
  assumes "\<not> isspace c"
  shows "strip (c # p) \<noteq> []"
proof -
  have "dropWhile isspace (rev p @ [c]) \<noteq> []"
    using assms by (simp add: dropWhile_eq_Nil_conv)
  with assms show ?thesis by (simp add: strip_def)
qed

lemma first_line_not_blank:
  assumes "str_split ''\<newline>'' (strip out) = first # others" and "others \<noteq> []"
  shows "strip first \<noteq> []"
proof (cases "strip out")
  case Nil
  with assms show ?thesis by simp
next
  case (Cons c cs)
  then have "\<not> isspace c"
    using hd_strip_not_space [of out] by simp
  then have "c \<noteq> CHR ''\<newline>''"
    using isspace_newline by auto
  with assms Cons obtain p where "first = c # p"
    by (auto split: list.splits)
  with \<open>\<not> isspace c\<close> show ?thesis
    by (simp add: strip_Cons_not_space)
qed

lemma contains_sublist: "contains sub s = sublist sub s"
proof (induction s)
  case Nil
  then show ?case by simp
next
  case (Cons c cs)
  then show ?case by (cases sub) (simp_all add: sublist_Cons_right)
qed

section \<open>Parsing the output of the extraction\<close>

lemma run_command_Completed:
  "run e ([ytdlp_path self] @ args) t = Completed rc out err \<Longrightarrow>
   run_command e self args t = ((rc, out, err), [([ytdlp_path self] @ args, t)])"
  by (simp add: run_command_def)

lemma extract_info_exit0:
  assumes "run e ([ytdlp_path self] @ extract_args url flat items cf br) 60 = Completed 0 out err"
  shows "fst (extract_info e self url flat items cf br) = catch_decode_error (parse_output e out)"
  using run_command_Completed [OF assms] by (simp add: extract_info_def)

lemma extract_info_nonzero:
  assumes "run e ([ytdlp_path self] @ extract_args url flat items cf br) 60 = Completed rc out err"
    and "rc \<noteq> 0"
  shows "fst (extract_info e self url flat items cf br) = Inr PNone"
  using run_command_Completed [OF assms(1)] assms(2) by (simp add: extract_info_def)

lemma extract_info_timeout:
  "run e ([ytdlp_path self] @ extract_args url flat items cf br) 60 = TimeoutExpired \<Longrightarrow>
   fst (extract_info e self url flat items cf br) = Inr PNone"
  by (simp add: extract_info_def run_command_def)

lemma extract_info_exception:
  "run e ([ytdlp_path self] @ extract_args url flat items cf br) 60 = OtherException msg \<Longrightarrow>
   fst (extract_info e self url flat items cf br) = Inr PNone"
  by (simp add: extract_info_def run_command_def)

lemma parse_entries_all:
  "map (loads e) (filter (\<lambda>l. strip l \<noteq> []) ls) = map Inr vs \<Longrightarrow> parse_entries e ls = Inr vs"
proof (induction ls arbitrary: vs)
  case Nil
  then show ?case by simp
next
  case (Cons l ls)
  show ?case
  proof (cases "strip l \<noteq> []")
    case True
    with Cons.prems obtain v vs' where vs: "vs = v # vs'" and v: "loads e l = Inr v"
      and rest: "map (loads e) (filter (\<lambda>l. strip l \<noteq> []) ls) = map Inr vs'"
      by (cases vs) auto
    from Cons.IH [OF rest] True v vs show ?thesis
      by (simp add: json_loads_def)
  next
    case False
    with Cons show ?thesis by simp
  qed
qed

lemma parse_entries_first_failure:
  assumes "\<forall>x \<in> set pre. strip x \<noteq> [] \<longrightarrow> (\<exists>v. loads e x = Inr v)"
    and "strip l \<noteq> []" and "loads e l = Inl err"
  shows "parse_entries e (pre @ l # post) = Inl err"
  using assms
proof (induction pre)
  case Nil
  then show ?case by (simp add: json_loads_def)
next
  case (Cons x pre)
  then have rest: "parse_entries e (pre @ l # post) = Inl err" by simp
  show ?case
  proof (cases "strip x \<noteq> []")
    case True
    with Cons.prems obtain v where "loads e x = Inr v" by auto
    with True rest show ?thesis by (simp add: json_loads_def)
  next
    case False
    with rest show ?thesis by simp
  qed
qed

section \<open>ExtractInfo\<close>

text \<open>
  C1, as amended. When the process exits with status 0, the stdout stripped of
  surrounding white space has more than one line, its first line parses to a mapping
  whose \<^verbatim>\<open>_type\<close> is \<^verbatim>\<open>"playlist"\<close>, and every later line that is not blank parses,
  \<^verbatim>\<open>extract_info\<close> returns that mapping with \<^verbatim>\<open>entries\<close> set to the documents parsed
  from the later lines that are not blank, in their order; the header is not among them.
\<close>

theorem extract_info_playlist_header:
  assumes exit0: "run e ([ytdlp_path self] @ extract_args url flat items cf br) 60 = Completed 0 out err"
    and lines: "str_split ''\<newline>'' (strip out) = first # others" "others \<noteq> []"
    and header: "loads e first = Inr (PDict header)"
    and playlist: "map_of header ''_type'' = Some (PStr ''playlist'')"
    and parsed: "map (loads e) (filter (\<lambda>l. strip l \<noteq> []) others) = map Inr rest"
  shows "fst (extract_info e self url flat items cf br)
           = Inr (PDict (AList.update ''entries'' (PList rest) header))"
proof -
  have "strip first \<noteq> []"
    using lines by (rule first_line_not_blank)
  with header parsed
  have "map (loads e) (filter (\<lambda>l. strip l \<noteq> []) (first # others)) = map Inr (PDict header # rest)"
    by simp
  then have entries: "parse_entries e (first # others) = Inr (PDict header # rest)"
    by (rule parse_entries_all)
  obtain l ls where others: "others = l # ls"
    using lines(2) by (cases others) auto
  have "parse_output e out = Inr (PDict (AList.update ''entries'' (PList rest) header))"
    unfolding parse_output_def lines(1) others
    using entries header playlist
    by (simp add: others json_loads_def py_get_def)
  then show ?thesis
    using extract_info_exit0 [OF exit0] by (simp add: catch_decode_error_def)
qed

text \<open>The amended C1 on the sample playlist: a header, two entries, a blank line between them.\<close>

theorem extract_info_playlist_header_witness:
  "fst (extract_info (sample_env 0 playlist_out) (init ''yt-dlp'') ''https://example.org/list''
          True None None None)
     = Inr (PDict [(''_type'', PStr ''playlist''), (''title'', PStr ''Mix''),
                   (''entries'', PList [PDict [(''id'', PStr ''a'')], PDict [(''id'', PStr ''b'')]])])"
proof -
  have "fst (extract_info (sample_env 0 playlist_out) (init ''yt-dlp'') ''https://example.org/list''
          True None None None)
     = Inr (PDict (AList.update ''entries'' (PList [PDict [(''id'', PStr ''a'')], PDict [(''id'', PStr ''b'')]])
             [(''_type'', PStr ''playlist''), (''title'', PStr ''Mix'')]))"
  proof (rule extract_info_playlist_header [where out = playlist_out and err = "[]"
        and first = doc_header and others = "[doc_a, [], doc_b]"])
    show "run (sample_env 0 playlist_out)
            ([ytdlp_path (init ''yt-dlp'')]
             @ extract_args ''https://example.org/list'' True None None None) 60
          = Completed 0 playlist_out []"
      by (simp add: sample_env_def)
    show "str_split ''\<newline>'' (strip playlist_out) = doc_header # [doc_a, [], doc_b]"
      by code_simp
    show "[doc_a, [], doc_b] \<noteq> []" by simp
    show "loads (sample_env 0 playlist_out) doc_header
            = Inr (PDict [(''_type'', PStr ''playlist''), (''title'', PStr ''Mix'')])"
      by code_simp
    show "map_of [(''_type'', PStr ''playlist''), (''title'', PStr ''Mix'')] ''_type''
            = Some (PStr ''playlist'')"
      by simp
    show "map (loads (sample_env 0 playlist_out)) (filter (\<lambda>l. strip l \<noteq> []) [doc_a, [], doc_b])
            = map Inr [PDict [(''id'', PStr ''a'')], PDict [(''id'', PStr ''b'')]]"
      by code_simp
  qed
  then show ?thesis by simp
qed

text \<open>
  C1 as stated fails: the stdout below has more than one line and its first line is a
  playlist header, but the lines after the header are white space, which
  \<^verbatim>\<open>stdout.strip()\<close> removes before the split. One line is left, and
  \<^verbatim>\<open>extract_info\<close> returns the header as parsed, with no \<^verbatim>\<open>entries\<close> key.
\<close>

theorem stripped_header_counterexample:
  "run (sample_env 0 header_then_blank)
     ([ytdlp_path (init ''yt-dlp'')] @ extract_args ''https://example.org/list'' False None None None)
     60 = Completed 0 header_then_blank []
   \<and> str_split ''\<newline>'' header_then_blank = [doc_header, '' '', []]
   \<and> loads (sample_env 0 header_then_blank) doc_header
       = Inr (PDict [(''_type'', PStr ''playlist''), (''title'', PStr ''Mix'')])
   \<and> fst (extract_info (sample_env 0 header_then_blank) (init ''yt-dlp'')
            ''https://example.org/list'' False None None None)
       = Inr (PDict [(''_type'', PStr ''playlist''), (''title'', PStr ''Mix'')])
   \<and> map_of [(''_type'', PStr ''playlist''), (''title'', PStr ''Mix'')] ''entries'' = None"
  by code_simp

text \<open>
  C2, as amended. When the process exits with status 0, the stdout stripped of
  surrounding white space has more than one line, its first line parses to a mapping
  whose \<^verbatim>\<open>_type\<close> is not \<^verbatim>\<open>"playlist"\<close>, and every line that is not blank parses,
  \<^verbatim>\<open>extract_info\<close> returns a new mapping whose \<^verbatim>\<open>entries\<close> holds the documents
  parsed from all lines that are not blank, the first included, in their order, and
  whose \<^verbatim>\<open>_type\<close> is \<^verbatim>\<open>"multi_video"\<close>.
\<close>

theorem extract_info_multi_video:
  assumes exit0: "run e ([ytdlp_path self] @ extract_args url flat items cf br) 60 = Completed 0 out err"
    and lines: "str_split ''\<newline>'' (strip out) = first # others" "others \<noteq> []"
    and header: "loads e first = Inr (PDict header)"
    and not_playlist: "map_of header ''_type'' \<noteq> Some (PStr ''playlist'')"
    and parsed: "map (loads e) (filter (\<lambda>l. strip l \<noteq> []) (first # others)) = map Inr entries"
  shows "fst (extract_info e self url flat items cf br)
           = Inr (PDict [(''entries'', PList entries), (''_type'', PStr ''multi_video'')])"
proof -
  have entries: "parse_entries e (first # others) = Inr entries"
    using parsed by (rule parse_entries_all)
  obtain l ls where others: "others = l # ls"
    using lines(2) by (cases others) auto
  have "parse_output e out
          = Inr (PDict [(''entries'', PList entries), (''_type'', PStr ''multi_video'')])"
    unfolding parse_output_def lines(1) others
    using entries header not_playlist
    by (auto simp add: others json_loads_def py_get_def split: option.splits)
  then show ?thesis
    using extract_info_exit0 [OF exit0] by (simp add: catch_decode_error_def)
qed

text \<open>The amended C2 on two video documents.\<close>

theorem extract_info_multi_video_witness:
  "fst (extract_info (sample_env 0 videos_out) (init ''yt-dlp'') ''https://example.org/two''
          False None None None)
     = Inr (PDict [(''entries'', PList [PDict [(''id'', PStr ''a'')], PDict [(''id'', PStr ''b'')]]),
                   (''_type'', PStr ''multi_video'')])"
proof (rule extract_info_multi_video [where out = videos_out and err = "[]"
      and first = doc_a and others = "[doc_b]" and header = "[(''id'', PStr ''a'')]"])
  show "run (sample_env 0 videos_out)
          ([ytdlp_path (init ''yt-dlp'')]
           @ extract_args ''https://example.org/two'' False None None None) 60
        = Completed 0 videos_out []"
    by (simp add: sample_env_def)
  show "str_split ''\<newline>'' (strip videos_out) = [doc_a, doc_b]"
    by code_simp
  show "[doc_b] \<noteq> []" by simp
  show "loads (sample_env 0 videos_out) doc_a = Inr (PDict [(''id'', PStr ''a'')])"
    by code_simp
  show "map_of [(''id'', PStr ''a'')] ''_type'' \<noteq> Some (PStr ''playlist'')"
    by simp
  show "map (loads (sample_env 0 videos_out)) (filter (\<lambda>l. strip l \<noteq> []) [doc_a, doc_b])
          = map Inr [PDict [(''id'', PStr ''a'')], PDict [(''id'', PStr ''b'')]]"
    by code_simp
qed

text \<open>
  C2 as stated fails: the stdout below has more than one line and its first line is a
  video document, but only white space follows it. After \<^verbatim>\<open>stdout.strip()\<close> one
  line is left, and \<^verbatim>\<open>extract_info\<close> returns the document itself, not a
  \<^verbatim>\<open>multi_video\<close> wrapper.
\<close>

theorem stripped_video_counterexample:
  "run (sample_env 0 video_then_blank)
     ([ytdlp_path (init ''yt-dlp'')] @ extract_args ''https://example.org/v'' False None None None)
     60 = Completed 0 video_then_blank []
   \<and> str_split ''\<newline>'' video_then_blank = [doc_a, '' '', []]
   \<and> loads (sample_env 0 video_then_blank) doc_a = Inr (PDict [(''id'', PStr ''a'')])
   \<and> map_of [(''id'', PStr ''a'')] ''_type'' \<noteq> Some (PStr ''playlist'')
   \<and> fst (extract_info (sample_env 0 video_then_blank) (init ''yt-dlp'')
            ''https://example.org/v'' False None None None)
       = Inr (PDict [(''id'', PStr ''a'')])
   \<and> fst (extract_info (sample_env 0 video_then_blank) (init ''yt-dlp'')
            ''https://example.org/v'' False None None None)
       \<noteq> Inr (PDict [(''entries'', PList [PDict [(''id'', PStr ''a'')]]),
                      (''_type'', PStr ''multi_video'')])"
  by code_simp

text \<open>
  C3, as amended. When the process exits with status 0 and, in the stdout stripped of
  surrounding white space, a line that is not blank fails to parse with
  \<^verbatim>\<open>JSONDecodeError\<close> while every line before it that is not blank parses,
  \<^verbatim>\<open>extract_info\<close> returns \<^verbatim>\<open>None\<close>, whatever the lines after it are.
\<close>

theorem extract_info_decode_error:
  assumes exit0: "run e ([ytdlp_path self] @ extract_args url flat items cf br) 60 = Completed 0 out err"
    and lines: "str_split ''\<newline>'' (strip out) = pre @ l # post"
    and earlier: "\<forall>x \<in> set pre. strip x \<noteq> [] \<longrightarrow> (\<exists>v. loads e x = Inr v)"
    and not_blank: "strip l \<noteq> []"
    and fails: "loads e l = Inl JSONDecodeError"
  shows "fst (extract_info e self url flat items cf br) = Inr PNone"
proof -
  have loop: "parse_entries e (pre @ l # post) = Inl JSONDecodeError"
    using earlier not_blank fails by (rule parse_entries_first_failure)
  have "parse_output e out = Inl JSONDecodeError"
  proof (cases "pre @ l # post")
    case Nil
    then show ?thesis by simp
  next
    case (Cons first others)
    note split = this
    show ?thesis
    proof (cases others)
      case Nil
      with split have "pre @ l # post = [first]" by simp
      then have "pre = []" and "first = l"
        by (cases pre; simp)+
      with Nil split lines fails show ?thesis
        by (simp add: parse_output_def json_loads_def)
    next
      case (Cons x xs)
      have first_line: "loads e first = Inl JSONDecodeError \<or> (\<exists>v. loads e first = Inr v)"
      proof (cases pre)
        case Nil
        with split fails show ?thesis by simp
      next
        case (Cons p ps)
        with split have "first = p" by simp
        moreover have "strip first \<noteq> []"
          using lines split \<open>others = x # xs\<close> first_line_not_blank [of out first others] by simp
        ultimately show ?thesis
          using earlier Cons by auto
      qed
      from loop split have "parse_entries e (first # others) = Inl JSONDecodeError"
        by simp
      with first_line Cons lines split show ?thesis
        by (auto simp add: parse_output_def json_loads_def)
    qed
  qed
  then show ?thesis
    using extract_info_exit0 [OF exit0] by (simp add: catch_decode_error_def)
qed

text \<open>The amended C3 on a line that is not JSON between two valid documents.\<close>

theorem extract_info_decode_error_witness:
  "fst (extract_info (sample_env 0 (doc_a @ ''\<newline>not json\<newline>'' @ doc_b)) (init ''yt-dlp'')
          ''https://example.org/two'' False None None None)
     = Inr PNone"
proof (rule extract_info_decode_error [where out = "doc_a @ ''\<newline>not json\<newline>'' @ doc_b"
      and err = "[]" and pre = "[doc_a]" and l = "''not json''" and post = "[doc_b]"])
  show "run (sample_env 0 (doc_a @ ''\<newline>not json\<newline>'' @ doc_b))
          ([ytdlp_path (init ''yt-dlp'')]
           @ extract_args ''https://example.org/two'' False None None None) 60
        = Completed 0 (doc_a @ ''\<newline>not json\<newline>'' @ doc_b) []"
    by (simp add: sample_env_def)
  show "str_split ''\<newline>'' (strip (doc_a @ ''\<newline>not json\<newline>'' @ doc_b))
          = [doc_a] @ ''not json'' # [doc_b]"
    by code_simp
  show "\<forall>x \<in> set [doc_a]. strip x \<noteq> [] \<longrightarrow>
          (\<exists>v. loads (sample_env 0 (doc_a @ ''\<newline>not json\<newline>'' @ doc_b)) x = Inr v)"
  proof -
    have "loads (sample_env 0 (doc_a @ ''\<newline>not json\<newline>'' @ doc_b)) doc_a
            = Inr (PDict [(''id'', PStr ''a'')])"
      by code_simp
    then show ?thesis by simp
  qed
  show "strip ''not json'' \<noteq> []"
    by code_simp
  show "loads (sample_env 0 (doc_a @ ''\<newline>not json\<newline>'' @ doc_b)) ''not json''
          = Inl JSONDecodeError"
    by code_simp
qed

text \<open>
  C3 as stated fails: a line of one space is not empty and does not parse, yet the
  loop skips it (\<^verbatim>\<open>if line.strip():\<close>) and \<^verbatim>\<open>extract_info\<close> returns the two entries
  around it.
\<close>

theorem blank_line_counterexample:
  "run (sample_env 0 spaced_out)
     ([ytdlp_path (init ''yt-dlp'')] @ extract_args ''https://example.org/two'' False None None None)
     60 = Completed 0 spaced_out []
   \<and> '' '' \<in> set (str_split ''\<newline>'' spaced_out)
   \<and> '' '' \<noteq> []
   \<and> loads (sample_env 0 spaced_out) '' '' = Inl JSONDecodeError
   \<and> fst (extract_info (sample_env 0 spaced_out) (init ''yt-dlp'') ''https://example.org/two''
            False None None None)
       = Inr (PDict [(''entries'', PList [PDict [], PDict []]), (''_type'', PStr ''multi_video'')])
   \<and> fst (extract_info (sample_env 0 spaced_out) (init ''yt-dlp'') ''https://example.org/two''
            False None None None)
       \<noteq> Inr PNone"
  by code_simp

text \<open>
  C4. The failing input: output that is valid JSON but not a mapping. On the two lines
  \<^verbatim>\<open>1\<close> and \<^verbatim>\<open>2\<close> the call \<^verbatim>\<open>playlist_info.get('_type')\<close> raises
  \<^verbatim>\<open>AttributeError\<close>, which \<^verbatim>\<open>except json.JSONDecodeError\<close> does not catch; on
  \<^verbatim>\<open>[1]\<close> \<^verbatim>\<open>get_subtitles\<close> raises \<^verbatim>\<open>AttributeError\<close> at \<^verbatim>\<open>info.get\<close>; on \<^verbatim>\<open>1\<close>
  \<^verbatim>\<open>get_formats\<close> and \<^verbatim>\<open>get_thumbnail_info\<close> raise \<^verbatim>\<open>TypeError\<close> at the
  membership test.
\<close>

theorem non_mapping_output_raises:
  "fst (extract_info (sample_env 0 ''1\<newline>2'') (init ''yt-dlp'') ''https://example.org/v''
          False None None None) = Inl AttributeError
   \<and> fst (get_subtitles (sample_env 0 ''[1]'') (init ''yt-dlp'') ''https://example.org/v'')
       = Inl AttributeError
   \<and> fst (get_formats (sample_env 0 ''1'') (init ''yt-dlp'') ''https://example.org/v'')
       = Inl TypeError
   \<and> fst (get_thumbnail_info (sample_env 0 ''1'') (init ''yt-dlp'') ''https://example.org/v'')
       = Inl TypeError"
  by code_simp

lemma accessors_of_none:
  assumes "fst (extract_info_default e self url) = Inr PNone"
  shows "fst (get_formats e self url) = Inr PNone"
    and "fst (get_subtitles e self url) = Inr PNone"
    and "fst (get_thumbnail_info e self url) = Inr PNone"
  using assms
  by (auto simp add: get_formats_def get_subtitles_def get_thumbnail_info_def field_or_none_def
      split: prod.splits sum.splits)

text \<open>
  C7. When the process exits with a status other than 0, \<^verbatim>\<open>extract_info\<close>,
  \<^verbatim>\<open>get_formats\<close>, \<^verbatim>\<open>get_subtitles\<close> and \<^verbatim>\<open>get_thumbnail_info\<close> return \<^verbatim>\<open>None\<close>.
  The three accessors call \<^verbatim>\<open>extract_info\<close> with its defaults, so the premise is
  stated for that invocation too.
\<close>

theorem nonzero_exit_returns_none:
  assumes "run e ([ytdlp_path self] @ extract_args url flat items cf br) 60 = Completed rc out err"
    and "rc \<noteq> 0"
    and "run e ([ytdlp_path self] @ extract_args url False None None None) 60
           = Completed rc' out' err'"
    and "rc' \<noteq> 0"
  shows "fst (extract_info e self url flat items cf br) = Inr PNone
       \<and> fst (get_formats e self url) = Inr PNone
       \<and> fst (get_subtitles e self url) = Inr PNone
       \<and> fst (get_thumbnail_info e self url) = Inr PNone"
proof -
  have "fst (extract_info_default e self url) = Inr PNone"
    unfolding extract_info_default_def using assms(3,4) by (rule extract_info_nonzero)
  then show ?thesis
    using extract_info_nonzero [OF assms(1,2)] by (simp add: accessors_of_none)
qed

text \<open>C7 on a process that exits with status 1.\<close>

theorem nonzero_exit_returns_none_witness:
  "fst (extract_info (sample_env 1 []) (init ''yt-dlp'') ''https://example.org/v''
          True (Some ''1-3'') None (Some ''firefox'')) = Inr PNone
   \<and> fst (get_formats (sample_env 1 []) (init ''yt-dlp'') ''https://example.org/v'') = Inr PNone
   \<and> fst (get_subtitles (sample_env 1 []) (init ''yt-dlp'') ''https://example.org/v'') = Inr PNone
   \<and> fst (get_thumbnail_info (sample_env 1 []) (init ''yt-dlp'') ''https://example.org/v'')
       = Inr PNone"
  by (rule nonzero_exit_returns_none [where rc = 1 and rc' = 1 and out = "[]" and out' = "[]"
        and err = "[]" and err' = "[]"])
     (simp_all add: sample_env_def)

text \<open>
  C8, as amended. When \<^verbatim>\<open>extract_info\<close> returns a mapping that is not empty,
  \<^verbatim>\<open>get_subtitles\<close> returns the mapping of \<^verbatim>\<open>subtitles\<close> and
  \<^verbatim>\<open>automatic_captions\<close>, each the value of that key in the extraction result or an
  empty mapping when the key is absent; when \<^verbatim>\<open>extract_info\<close> returns \<^verbatim>\<open>None\<close> or an
  empty mapping, \<^verbatim>\<open>get_subtitles\<close> returns \<^verbatim>\<open>None\<close>.
\<close>

theorem get_subtitles_of_info:
  assumes "fst (extract_info_default e self url) = Inr info"
  shows "(\<forall>kvs. info = PDict kvs \<and> kvs \<noteq> [] \<longrightarrow>
            fst (get_subtitles e self url)
              = Inr (PDict [(''subtitles'',
                               case map_of kvs ''subtitles'' of None \<Rightarrow> PDict [] | Some v \<Rightarrow> v),
                            (''automatic_captions'',
                               case map_of kvs ''automatic_captions'' of
                                 None \<Rightarrow> PDict [] | Some v \<Rightarrow> v)]))
       \<and> (info = PNone \<or> info = PDict [] \<longrightarrow> fst (get_subtitles e self url) = Inr PNone)"
  using assms
  by (auto simp add: get_subtitles_def split: prod.splits sum.splits)

text \<open>The amended C8 on a document with neither key.\<close>

theorem get_subtitles_of_info_witness:
  "fst (get_subtitles (sample_env 0 doc_a) (init ''yt-dlp'') ''https://example.org/v'')
     = Inr (PDict [(''subtitles'', PDict []), (''automatic_captions'', PDict [])])"
proof -
  have info: "fst (extract_info_default (sample_env 0 doc_a) (init ''yt-dlp'') ''https://example.org/v'')
          = Inr (PDict [(''id'', PStr ''a'')])"
    by code_simp
  show ?thesis
    using get_subtitles_of_info [OF info] by simp
qed

text \<open>
  C8 as stated fails: on the output \<^verbatim>\<open>{}\<close> the extraction returns a mapping, the empty
  one, and \<^verbatim>\<open>get_subtitles\<close> returns \<^verbatim>\<open>None\<close>, since \<^verbatim>\<open>if info:\<close> tests the truth
  value of the result.
\<close>

theorem empty_mapping_counterexample:
  "fst (extract_info_default (sample_env 0 ''{}'') (init ''yt-dlp'') ''https://example.org/v'')
     = Inr (PDict [])
   \<and> fst (get_subtitles (sample_env 0 ''{}'') (init ''yt-dlp'') ''https://example.org/v'')
       = Inr PNone"
  by code_simp

section \<open>CheckAvailability\<close>

text \<open>
  When the executable reference is not the bare name and the existence check answers
  that no file is there, \<^verbatim>\<open>check_availability\<close> returns \<^verbatim>\<open>False\<close> and has invoked no
  process. When the existence check raises, the exception leaves
  \<^verbatim>\<open>check_availability\<close>: the method has no handler.
\<close>

lemma check_availability_missing_file:
  assumes "ytdlp_path self \<noteq> ''yt-dlp''" and "path_exists e (ytdlp_path self) = Inr False"
  shows "check_availability e self = (Inr False, [])"
  using assms by (simp add: check_availability_def)

lemma check_availability_exists_raises:
  assumes "ytdlp_path self \<noteq> ''yt-dlp''" and "path_exists e (ytdlp_path self) = Inl err"
  shows "check_availability e self = (Inl err, [])"
  using assms by (simp add: check_availability_def)

lemma check_availability_missing_file_example:
  "check_availability (sample_env 0 ''2024.03.10'') (init ''/opt/tools/yt-dlp'') = (Inr False, [])"
  by (rule check_availability_missing_file) (simp_all add: init_def sample_env_def)

text \<open>
  C9. The failing input: an executable reference of 256 characters. No file exists at
  it, and \<^verbatim>\<open>Path(...).exists()\<close> raises \<^verbatim>\<open>OSError\<close> because the name is too long;
  \<^verbatim>\<open>check_availability\<close> raises it to the caller where C9 has it return \<^verbatim>\<open>False\<close>.
\<close>

theorem check_availability_long_name:
  "ytdlp_path (init (replicate 256 CHR ''x'')) \<noteq> ''yt-dlp''
   \<and> path_exists (sample_env 0 ''2024.03.10'') (ytdlp_path (init (replicate 256 CHR ''x'')))
       = Inl OSError
   \<and> check_availability (sample_env 0 ''2024.03.10'') (init (replicate 256 CHR ''x''))
       = (Inl OSError, [])"
  by code_simp

section \<open>BuildDownloadCommand\<close>

lemma loops_no_match:
  assumes "\<forall>fmt \<in> set fmts. \<exists>kvs. fmt = PDict kvs \<and> map_of kvs ''format_id'' \<noteq> Some (PStr cid)"
  shows "is_audio_loop cid fmts = Inr False \<and> merge_loop cid fmts = Inr []"
  using assms
proof (induction fmts)
  case Nil
  then show ?case by simp
next
  case (Cons fmt fmts)
  then obtain kvs where "fmt = PDict kvs" and "map_of kvs ''format_id'' \<noteq> Some (PStr cid)"
    by auto
  with Cons show ?case
    by (auto simp add: py_get_def split: option.splits)
qed

lemma loops_first_match:
  assumes "\<forall>fmt \<in> set pre. \<exists>kvs'. fmt = PDict kvs' \<and> map_of kvs' ''format_id'' \<noteq> Some (PStr cid)"
    and "map_of kvs ''format_id'' = Some (PStr cid)"
  shows "is_audio_loop cid (pre @ PDict kvs # post) = audio_only_entry (PDict kvs)
       \<and> merge_loop cid (pre @ PDict kvs # post)
           = Inr (case map_of kvs ''ext'' of
                    None \<Rightarrow> []
                  | Some format_ext \<Rightarrow>
                      if truthy format_ext then [PStr ''--merge-output-format'', format_ext] else [])"
  using assms
proof (induction pre)
  case Nil
  then show ?case by (simp add: py_get_def split: option.splits)
next
  case (Cons fmt pre)
  then obtain kvs' where "fmt = PDict kvs'" and "map_of kvs' ''format_id'' \<noteq> Some (PStr cid)"
    by auto
  with Cons show ?case
    by (auto simp add: py_get_def split: option.splits)
qed

lemma audio_only_entry_str_note:
  "map_of kvs ''format_note'' = Some (PStr note) \<Longrightarrow>
   audio_only_entry (PDict kvs)
     = Inr (map_of kvs ''vcodec'' = Some (PStr ''none'') \<or> contains ''audio only'' (lower note))"
  by (simp add: audio_only_entry_def py_get_def split: option.splits)

lemma audio_only_entry_no_note:
  "map_of kvs ''format_note'' = None \<Longrightarrow>
   audio_only_entry (PDict kvs) = Inr (map_of kvs ''vcodec'' = Some (PStr ''none''))"
  by (simp add: audio_only_entry_def py_get_def lower_def split: option.splits)

lemma clean_format_id_no_drc: "\<not> contains ''-drc'' fid \<Longrightarrow> clean_format_id fid = fid"
  by (simp only: clean_format_id_def if_False)

lemma formats_of_absent:
  "formats_of PNone = Inr []"
  "''formats'' \<notin> set (map fst kvs) \<Longrightarrow> formats_of (PDict kvs) = Inr []"
  by (simp_all add: formats_of_def)

lemma audio_only_entry_well_formed:
  assumes "well_formed_format fmt"
  shows "\<exists>b. audio_only_entry fmt = Inr b"
proof -
  from assms obtain kvs where fmt: "fmt = PDict kvs"
    by (cases fmt) simp_all
  show ?thesis
  proof (cases "map_of kvs ''format_note''")
    case None
    then show ?thesis
      unfolding fmt by (simp only: audio_only_entry_no_note) blast
  next
    case (Some v)
    with assms fmt obtain s where "v = PStr s"
      by (cases v) simp_all
    with Some show ?thesis
      unfolding fmt by (simp only: audio_only_entry_str_note) blast
  qed
qed

lemma loops_well_formed:
  "list_all well_formed_format fmts \<Longrightarrow>
   (\<exists>b. is_audio_loop cid fmts = Inr b) \<and> (\<exists>m. merge_loop cid fmts = Inr m)"
proof (induction fmts)
  case Nil
  show ?case by auto
next
  case (Cons fmt fmts)
  then have wf: "well_formed_format fmt" and IH: "(\<exists>b. is_audio_loop cid fmts = Inr b) \<and> (\<exists>m. merge_loop cid fmts = Inr m)"
    by simp_all
  from wf obtain kvs where fmt: "fmt = PDict kvs"
    by (cases fmt) simp_all
  from wf obtain b where entry: "audio_only_entry fmt = Inr b"
    using audio_only_entry_well_formed by blast
  from IH obtain b' m' where rest: "is_audio_loop cid fmts = Inr b'" "merge_loop cid fmts = Inr m'"
    by blast
  show ?case
  proof (cases "map_of kvs ''format_id'' = Some (PStr cid)")
    case True
    with fmt entry show ?thesis by (simp add: py_get_def)
  next
    case False
    with fmt rest show ?thesis
      by (cases "map_of kvs ''format_id''") (simp_all add: py_get_def)
  qed
qed

lemma formats_of_well_formed:
  "well_formed_info info \<Longrightarrow> \<exists>fmts. formats_of info = Inr fmts \<and> list_all well_formed_format fmts"
proof (cases info)
  case (PDict kvs)
  assume wf: "well_formed_info info"
  show ?thesis
  proof (cases "map_of kvs ''formats''")
    case None
    then have "''formats'' \<notin> set (map fst kvs)"
      by (simp add: map_of_eq_None_iff)
    with PDict show ?thesis
      by (simp add: formats_of_def)
  next
    case (Some v)
    with wf PDict obtain fmts where v: "v = PList fmts" and all: "list_all well_formed_format fmts"
      by (cases v) simp_all
    from Some have "''formats'' \<in> set (map fst kvs)"
      by (metis map_of_eq_None_iff option.distinct(1) set_map)
    moreover from Some have "kvs \<noteq> []" by auto
    ultimately show ?thesis
      using PDict Some v all by (simp add: formats_of_def)
  qed
qed (simp_all add: formats_of_def)

lemma format_selection_well_formed:
  assumes "fst (extract_info_default e self url) = Inr info" and "well_formed_info info"
  shows "\<exists>sel. fst (format_selection e self url opts) = Inr sel"
proof (cases "given (format_id opts)")
  case False
  then show ?thesis by (simp add: format_selection_def)
next
  case True
  obtain tr where call: "extract_info_default e self url = (Inr info, tr)"
    using assms(1) by (cases "extract_info_default e self url") auto
  obtain fmts where fmts: "formats_of info = Inr fmts" and all: "list_all well_formed_format fmts"
    using formats_of_well_formed [OF assms(2)] by blast
  obtain b m where "is_audio_loop (clean_format_id (the (format_id opts))) fmts = Inr b"
    and "merge_loop (clean_format_id (the (format_id opts))) fmts = Inr m"
    using loops_well_formed [OF all] by blast
  with True call fmts show ?thesis
    by (simp add: format_selection_def Let_def)
qed

lemma extract_info_benign:
  assumes "case run e ([ytdlp_path self] @ extract_args url flat items cf br) 60 of
             Completed rc out err \<Rightarrow>
               rc \<noteq> 0 \<or> parse_output e out = Inl JSONDecodeError
               \<or> (\<exists>info. parse_output e out = Inr info \<and> well_formed_info info)
           | TimeoutExpired \<Rightarrow> True
           | OtherException msg \<Rightarrow> True"
  shows "\<exists>info. fst (extract_info e self url flat items cf br) = Inr info \<and> well_formed_info info"
proof (cases "run e ([ytdlp_path self] @ extract_args url flat items cf br) 60")
  case (Completed rc out err)
  show ?thesis
  proof (cases "rc = 0")
    case False
    with Completed show ?thesis
      using extract_info_nonzero [of e self url flat items cf br rc out err] by simp
  next
    case True
    with Completed assms
    have "parse_output e out = Inl JSONDecodeError
          \<or> (\<exists>info. parse_output e out = Inr info \<and> well_formed_info info)"
      by simp
    with Completed True show ?thesis
      using extract_info_exit0 [of e self url flat items cf br out err]
      by (auto simp add: catch_decode_error_def)
  qed
next
  case TimeoutExpired
  then show ?thesis by (simp add: extract_info_timeout)
next
  case (OtherException msg)
  then show ?thesis by (simp add: extract_info_exception)
qed

lemma output_template_returns:
  assumes "cwd e = Inr dir" and "output_path opts = None \<or> (\<exists>p. output_path opts = Some (PathObj p))"
  shows "\<exists>template. output_template e opts = Inr template"
  using assms by (auto simp add: output_template_def)

lemma build_download_command_Inr:
  "fst (build_download_command e self url opts) = Inr cmd \<Longrightarrow>
   \<exists>sel template. fst (format_selection e self url opts) = Inr sel
      \<and> output_template e opts = Inr template
      \<and> cmd = [PStr (ytdlp_path self)] @ sel @ map PStr (common_options template opts) @ [PStr url]"
  by (auto simp add: build_download_command_def split: prod.splits sum.splits)

text \<open>
  C5. The failing input: a format id in which \<^verbatim>\<open>-drc\<close> is not the end, here
  \<^verbatim>\<open>137-drc-1\<close>. The id has no \<^verbatim>\<open>-drc\<close> suffix, so the claim keeps it whole; the
  code cuts it at the first \<^verbatim>\<open>-drc\<close>, looks up \<^verbatim>\<open>137\<close>, finds the video format of
  that id and asks for a merge into its container. The id \<^verbatim>\<open>137-drc\<close>, where
  \<^verbatim>\<open>-drc\<close> is the suffix, is cleaned as the claim says. A second input: a matched
  video format whose \<^verbatim>\<open>format_note\<close> is \<^verbatim>\<open>null\<close>; the default of \<^verbatim>\<open>.get\<close> does not
  apply to a key that is present, \<^verbatim>\<open>.lower()\<close> raises and no command is returned.
\<close>

theorem format_id_divergence:
  "clean_format_id ''137-drc'' = ''137''
   \<and> clean_format_id ''137-drc-1'' = ''137''
   \<and> \<not> suffix ''-drc'' ''137-drc-1''
   \<and> fst (build_download_command (sample_env 0 doc_video) (init ''yt-dlp'')
            ''https://example.org/v'' (no_options\<lparr>format_id := Some ''137-drc-1''\<rparr>))
       = Inr (map PStr [''yt-dlp'', ''-f'', ''137+bestaudio/best'', ''--merge-output-format'', ''mp4'',
                        ''-o'', ''/videos/%(title)s_%(resolution)s.%(ext)s'',
                        ''--force-overwrites'', ''https://example.org/v''])
   \<and> fst (build_download_command (sample_env 0 doc_null_note) (init ''yt-dlp'')
            ''https://example.org/n'' (no_options\<lparr>format_id := Some ''18''\<rparr>))
       = Inl AttributeError"
  by code_simp

text \<open>
  C6, as amended. Every command vector that \<^verbatim>\<open>build_download_command\<close> returns is not
  empty and has the URL as its last token. It returns one whenever the working
  directory can be read, \<^verbatim>\<open>output_path\<close> is absent or a path object, and, if a format
  id that is not empty is given, the extraction process times out, cannot be executed
  or exits with a status other than 0, or parsing its output raises
  \<^verbatim>\<open>JSONDecodeError\<close>, or parsing its output gives \<^verbatim>\<open>None\<close> or a mapping whose
  \<^verbatim>\<open>formats\<close> is absent or a list of mappings, each with a \<^verbatim>\<open>format_note\<close> that is
  absent or text.
\<close>

theorem build_download_command_ends_with_url:
  "(\<forall>cmd. fst (build_download_command e self url opts) = Inr cmd \<longrightarrow>
           cmd \<noteq> [] \<and> last cmd = PStr url)
   \<and> ((\<exists>dir. cwd e = Inr dir)
       \<and> (output_path opts = None \<or> (\<exists>p. output_path opts = Some (PathObj p)))
       \<and> (given (format_id opts) \<longrightarrow>
            (case run e ([ytdlp_path self] @ extract_args url False None None None) 60 of
               Completed rc out err \<Rightarrow>
                 rc \<noteq> 0 \<or> parse_output e out = Inl JSONDecodeError
                 \<or> (\<exists>info. parse_output e out = Inr info \<and> well_formed_info info)
             | TimeoutExpired \<Rightarrow> True
             | OtherException msg \<Rightarrow> True))
      \<longrightarrow> (\<exists>cmd. fst (build_download_command e self url opts) = Inr cmd))"
proof (intro conjI allI impI)
  fix cmd
  assume "fst (build_download_command e self url opts) = Inr cmd"
  then obtain sel template
    where "cmd = [PStr (ytdlp_path self)] @ sel @ map PStr (common_options template opts) @ [PStr url]"
    using build_download_command_Inr by blast
  then show "cmd \<noteq> []" and "last cmd = PStr url"
    by simp_all
next
  assume conditions:
    "(\<exists>dir. cwd e = Inr dir)
     \<and> (output_path opts = None \<or> (\<exists>p. output_path opts = Some (PathObj p)))
     \<and> (given (format_id opts) \<longrightarrow>
          (case run e ([ytdlp_path self] @ extract_args url False None None None) 60 of
             Completed rc out err \<Rightarrow>
               rc \<noteq> 0 \<or> parse_output e out = Inl JSONDecodeError
               \<or> (\<exists>info. parse_output e out = Inr info \<and> well_formed_info info)
           | TimeoutExpired \<Rightarrow> True
           | OtherException msg \<Rightarrow> True))"
  then obtain template where template: "output_template e opts = Inr template"
    using output_template_returns [of e _ opts] by blast
  have "\<exists>sel. fst (format_selection e self url opts) = Inr sel"
  proof (cases "given (format_id opts)")
    case False
    then show ?thesis by (simp add: format_selection_def)
  next
    case True
    with conditions obtain info
      where "fst (extract_info_default e self url) = Inr info" and "well_formed_info info"
      unfolding extract_info_default_def using extract_info_benign [of e self url False None None None]
      by blast
    then show ?thesis by (rule format_selection_well_formed)
  qed
  then obtain sel where "fst (format_selection e self url opts) = Inr sel" ..
  with template show "\<exists>cmd. fst (build_download_command e self url opts) = Inr cmd"
    by (cases "format_selection e self url opts") (simp add: build_download_command_def)
qed

text \<open>
  The amended C6 on a video format, where the builder adds the merge flag, and on
  output that is not JSON, with \<^verbatim>\<open>output_path\<close> given as a path object.
\<close>

theorem build_download_command_ends_with_url_witness:
  "(\<exists>cmd. fst (build_download_command (sample_env 0 doc_video) (init ''yt-dlp'')
                 ''https://example.org/v'' (no_options\<lparr>format_id := Some ''137''\<rparr>)) = Inr cmd
           \<and> cmd \<noteq> [] \<and> last cmd = PStr ''https://example.org/v'')
   \<and> (\<exists>cmd. fst (build_download_command (sample_env 0 ''not json'') (init ''yt-dlp'')
                 ''https://example.org/v''
                 (no_options\<lparr>format_id := Some ''137'', output_path := Some (PathObj ''/out'')\<rparr>))
               = Inr cmd
           \<and> cmd \<noteq> [] \<and> last cmd = PStr ''https://example.org/v'')"
proof
  let ?e = "sample_env 0 doc_video"
  let ?opts = "no_options\<lparr>format_id := Some ''137''\<rparr>"
  have here: "\<exists>dir. cwd ?e = Inr dir"
    by (simp add: sample_env_def)
  have path: "output_path ?opts = None \<or> (\<exists>p. output_path ?opts = Some (PathObj p))"
    by (simp add: no_options_def)
  have call: "run ?e ([ytdlp_path (init ''yt-dlp'')]
                @ extract_args ''https://example.org/v'' False None None None) 60
              = Completed 0 doc_video []"
    by (simp add: sample_env_def)
  have parsed: "parse_output ?e doc_video
                  = Inr (PDict [(''id'', PStr ''v''), (''formats'', PList video_formats)])"
    by code_simp
  have shape: "well_formed_info (PDict [(''id'', PStr ''v''), (''formats'', PList video_formats)])"
    by code_simp
  from parsed shape have "\<exists>info. parse_output ?e doc_video = Inr info \<and> well_formed_info info"
    by blast
  with here path call
  show "\<exists>cmd. fst (build_download_command ?e (init ''yt-dlp'') ''https://example.org/v'' ?opts)
                = Inr cmd
          \<and> cmd \<noteq> [] \<and> last cmd = PStr ''https://example.org/v''"
    using build_download_command_ends_with_url [where e = ?e and self = "init ''yt-dlp''"
        and url = "''https://example.org/v''" and opts = ?opts]
    by auto
next
  let ?e = "sample_env 0 ''not json''"
  let ?opts = "no_options\<lparr>format_id := Some ''137'', output_path := Some (PathObj ''/out'')\<rparr>"
  have here: "\<exists>dir. cwd ?e = Inr dir"
    by (simp add: sample_env_def)
  have path: "output_path ?opts = None \<or> (\<exists>p. output_path ?opts = Some (PathObj p))"
    by (simp add: no_options_def)
  have call: "run ?e ([ytdlp_path (init ''yt-dlp'')]
                @ extract_args ''https://example.org/v'' False None None None) 60
              = Completed 0 ''not json'' []"
    by (simp add: sample_env_def)
  have failed: "parse_output ?e ''not json'' = Inl JSONDecodeError"
    by code_simp
  from here path call failed
  show "\<exists>cmd. fst (build_download_command ?e (init ''yt-dlp'') ''https://example.org/v'' ?opts)
                = Inr cmd
          \<and> cmd \<noteq> [] \<and> last cmd = PStr ''https://example.org/v''"
    using build_download_command_ends_with_url [where e = ?e and self = "init ''yt-dlp''"
        and url = "''https://example.org/v''" and opts = ?opts]
    by auto
qed

text \<open>
  C6 as stated fails: with \<^verbatim>\<open>output_path\<close> given as a string, \<^verbatim>\<open>output_path / "..."\<close>
  raises \<^verbatim>\<open>TypeError\<close> and no command vector is returned.
\<close>

theorem output_path_string_counterexample:
  "fst (build_download_command (sample_env 0 []) (init ''yt-dlp'') ''https://example.org/v''
          (no_options\<lparr>output_path := Some (NotAPath (PStr ''/out''))\<rparr>))
     = Inl TypeError"
  by code_simp

text \<open>
  C10, as amended. When a format id that is not empty is given, the working directory
  can be read, \<^verbatim>\<open>output_path\<close> is absent or a path object, and the inner call of
  \<^verbatim>\<open>extract_info\<close> returns \<^verbatim>\<open>None\<close>, or a mapping without \<^verbatim>\<open>formats\<close>, or a mapping
  whose \<^verbatim>\<open>formats\<close> is a list of mappings none of which has the cleaned id as its
  \<^verbatim>\<open>format_id\<close>, the command is the executable, \<^verbatim>\<open>-f\<close>, the cleaned id followed by
  \<^verbatim>\<open>+bestaudio/best\<close>, the tokens of the other options and the URL: the format
  section adds no \<^verbatim>\<open>--merge-output-format\<close>.
\<close>

theorem build_download_command_unmatched_format:
  assumes fid: "format_id opts = Some fid" "fid \<noteq> []"
    and here: "cwd e = Inr dir"
    and path: "output_path opts = None \<or> (\<exists>p. output_path opts = Some (PathObj p))"
    and info: "fst (extract_info_default e self url) = Inr info"
    and shape: "info = PNone
                \<or> (\<exists>kvs. info = PDict kvs
                      \<and> (map_of kvs ''formats'' = None
                          \<or> (\<exists>fmts. map_of kvs ''formats'' = Some (PList fmts)
                                \<and> (\<forall>fmt \<in> set fmts. \<exists>fkvs. fmt = PDict fkvs
                                      \<and> map_of fkvs ''format_id''
                                           \<noteq> Some (PStr (clean_format_id fid))))))"
  shows "\<exists>template. output_template e opts = Inr template
           \<and> fst (build_download_command e self url opts)
               = Inr ([PStr (ytdlp_path self),
                       PStr ''-f'', PStr (clean_format_id fid @ ''+bestaudio/best'')]
                      @ map PStr (common_options template opts) @ [PStr url])"
proof -
  obtain template where template: "output_template e opts = Inr template"
    using output_template_returns [OF here path] by blast
  have "\<exists>fmts. formats_of info = Inr fmts
          \<and> (\<forall>fmt \<in> set fmts. \<exists>fkvs. fmt = PDict fkvs
                \<and> map_of fkvs ''format_id'' \<noteq> Some (PStr (clean_format_id fid)))"
    using shape
  proof (elim disjE exE conjE)
    assume "info = PNone"
    then show ?thesis by (simp add: formats_of_def)
  next
    fix kvs
    assume "info = PDict kvs" and "map_of kvs ''formats'' = None"
    then show ?thesis
      by (simp add: formats_of_def map_of_eq_None_iff)
  next
    fix kvs fmts
    assume kvs: "info = PDict kvs" and fmts: "map_of kvs ''formats'' = Some (PList fmts)"
      and none: "\<forall>fmt \<in> set fmts. \<exists>fkvs. fmt = PDict fkvs
                   \<and> map_of fkvs ''format_id'' \<noteq> Some (PStr (clean_format_id fid))"
    from fmts have "''formats'' \<in> set (map fst kvs)"
      by (metis map_of_eq_None_iff option.distinct(1) set_map)
    moreover from fmts have "kvs \<noteq> []" by auto
    ultimately have "formats_of info = Inr fmts"
      using kvs fmts by (simp add: formats_of_def)
    with none show ?thesis by blast
  qed
  then obtain fmts where fmts: "formats_of info = Inr fmts"
    and no_match: "\<forall>fmt \<in> set fmts. \<exists>fkvs. fmt = PDict fkvs
                     \<and> map_of fkvs ''format_id'' \<noteq> Some (PStr (clean_format_id fid))"
    by blast
  obtain tr where call: "extract_info_default e self url = (Inr info, tr)"
    using info by (cases "extract_info_default e self url") auto
  have "format_selection e self url opts
          = (Inr [PStr ''-f'', PStr (clean_format_id fid @ ''+bestaudio/best'')], tr)"
    using fid call fmts loops_no_match [OF no_match]
    by (simp add: format_selection_def Let_def)
  with template show ?thesis
    by (simp add: build_download_command_def)
qed

text \<open>The amended C10 on the id 22, which the sample video does not offer.\<close>

theorem build_download_command_unmatched_format_witness:
  "fst (build_download_command (sample_env 0 doc_video) (init ''yt-dlp'')
          ''https://example.org/v'' (no_options\<lparr>format_id := Some ''22-drc''\<rparr>))
     = Inr (map PStr [''yt-dlp'', ''-f'', ''22+bestaudio/best'',
                      ''-o'', ''/videos/%(title)s_%(resolution)s.%(ext)s'',
                      ''--force-overwrites'', ''https://example.org/v''])"
proof -
  let ?e = "sample_env 0 doc_video"
  let ?opts = "no_options\<lparr>format_id := Some ''22-drc''\<rparr>"
  have fid: "format_id ?opts = Some ''22-drc''" "''22-drc'' \<noteq> []"
    by (simp_all add: no_options_def)
  have here: "cwd ?e = Inr ''/videos''"
    by (simp add: sample_env_def)
  have path: "output_path ?opts = None \<or> (\<exists>p. output_path ?opts = Some (PathObj p))"
    by (simp add: no_options_def)
  have info: "fst (extract_info_default ?e (init ''yt-dlp'') ''https://example.org/v'')
                = Inr (PDict [(''id'', PStr ''v''), (''formats'', PList video_formats)])"
    by code_simp
  have clean: "clean_format_id ''22-drc'' = ''22''"
    by code_simp
  have no_match: "\<forall>fmt \<in> set video_formats. \<exists>fkvs. fmt = PDict fkvs
                    \<and> map_of fkvs ''format_id'' \<noteq> Some (PStr (clean_format_id ''22-drc''))"
    unfolding clean by (simp add: video_formats_def)
  have shape: "PDict [(''id'', PStr ''v''), (''formats'', PList video_formats)] = PNone
        \<or> (\<exists>kvs. PDict [(''id'', PStr ''v''), (''formats'', PList video_formats)] = PDict kvs
              \<and> (map_of kvs ''formats'' = None
                  \<or> (\<exists>fmts. map_of kvs ''formats'' = Some (PList fmts)
                        \<and> (\<forall>fmt \<in> set fmts. \<exists>fkvs. fmt = PDict fkvs
                              \<and> map_of fkvs ''format_id''
                                   \<noteq> Some (PStr (clean_format_id ''22-drc''))))))"
    using no_match by simp
  have template: "output_template ?e ?opts = Inr ''/videos/%(title)s_%(resolution)s.%(ext)s''"
    by code_simp
  have tail: "common_options ''/videos/%(title)s_%(resolution)s.%(ext)s'' ?opts
                = [''-o'', ''/videos/%(title)s_%(resolution)s.%(ext)s'', ''--force-overwrites'']"
    by code_simp
  obtain t where "output_template ?e ?opts = Inr t"
    and "fst (build_download_command ?e (init ''yt-dlp'') ''https://example.org/v'' ?opts)
          = Inr ([PStr (ytdlp_path (init ''yt-dlp'')), PStr ''-f'',
                  PStr (clean_format_id ''22-drc'' @ ''+bestaudio/best'')]
                 @ map PStr (common_options t ?opts) @ [PStr ''https://example.org/v''])"
    using build_download_command_unmatched_format [OF fid here path info shape] by blast
  with template have "fst (build_download_command ?e (init ''yt-dlp'') ''https://example.org/v'' ?opts)
          = Inr ([PStr (ytdlp_path (init ''yt-dlp'')), PStr ''-f'',
                  PStr (clean_format_id ''22-drc'' @ ''+bestaudio/best'')]
                 @ map PStr (common_options ''/videos/%(title)s_%(resolution)s.%(ext)s'' ?opts)
                 @ [PStr ''https://example.org/v''])"
    by simp
  then show ?thesis
    unfolding clean tail by (simp add: init_def)
qed

text \<open>
  C10 as stated fails: the empty text is a format id that no entry of the format list
  has, but \<^verbatim>\<open>if options.get('format_id'):\<close> takes it for absent and the command has
  no \<^verbatim>\<open>-f\<close> at all.
\<close>

theorem empty_format_id_counterexample:
  "format_id (no_options\<lparr>format_id := Some []\<rparr>) = Some []
   \<and> fst (get_formats (sample_env 0 doc_video) (init ''yt-dlp'') ''https://example.org/v'')
       = Inr (PList video_formats)
   \<and> clean_format_id [] = []
   \<and> is_audio_loop [] video_formats = Inr False
   \<and> merge_loop [] video_formats = Inr []
   \<and> fst (build_download_command (sample_env 0 doc_video) (init ''yt-dlp'')
            ''https://example.org/v'' (no_options\<lparr>format_id := Some []\<rparr>))
       = Inr (map PStr [''yt-dlp'', ''-o'', ''/videos/%(title)s_%(resolution)s.%(ext)s'',
                        ''--force-overwrites'', ''https://example.org/v''])
   \<and> PStr ''-f'' \<notin> set (map PStr [''yt-dlp'', ''-o'', ''/videos/%(title)s_%(resolution)s.%(ext)s'',
                        ''--force-overwrites'', ''https://example.org/v''])"
  by code_simp

end
